theory Spec2Isabelle
  imports Main "HOL-Library.Word"
begin

unbundle bit_operations_syntax

section \<open>Data model of pkg/objectfile/object_file.go\<close>

type_synonym uint64 = "64 word"

text \<open>
  \<^verbatim>\<open>*os.File\<close>: a file handle is identified by its descriptor; \<^verbatim>\<open>f.Name()\<close> reads the
  name it was opened with. A nil pointer is \<open>None\<close> of \<open>os_File option\<close>.
\<close>

record os_File =
  Name :: string
  fd :: nat

text \<open>
  \<^verbatim>\<open>elf.ProgHeader\<close>, \<^verbatim>\<open>elf.FileHeader\<close>, \<^verbatim>\<open>elf.Symbol\<close> and \<^verbatim>\<open>elf.File\<close> of Go's debug/elf.
  \<^verbatim>\<open>ProgType\<close> is a Go \<^verbatim>\<open>int\<close>, \<^verbatim>\<open>ProgFlag\<close> a \<^verbatim>\<open>uint32\<close>; \<^verbatim>\<open>elf.PT_LOAD\<close> is 1 and \<^verbatim>\<open>elf.PF_X\<close> is
  0x1. The byte order of the header is little endian or big endian. Of a decoded file
  the package reads the header and the program headers; \<open>ident\<close> stands for the rest
  of it (sections, symbols), which only the collaborators read.
\<close>

record ProgHeader =
  Type :: int
  Flags :: "32 word"
  Off :: uint64
  Vaddr :: uint64
  Paddr :: uint64
  Filesz :: uint64
  Memsz :: uint64
  Align :: uint64

record FileHeader =
  Class :: "8 word"
  Data :: "8 word"
  Version :: "8 word"
  OSABI :: "8 word"
  ABIVersion :: "8 word"
  LittleEndian :: bool
  ElfType :: "16 word"
  Machine :: "16 word"
  Entry :: uint64

record Symbol =
  SymName :: string
  Info :: "8 word"
  Other :: "8 word"
  Section :: "16 word"
  Value :: uint64
  Size :: uint64

record elf_File =
  Header :: FileHeader
  Progs :: "ProgHeader list"
  ident :: nat

definition PT_LOAD :: int where
  "PT_LOAD = 1"

definition PF_X :: "32 word" where
  "PF_X = 1"

text \<open>\<^verbatim>\<open>type mapping struct\<close>; the pointer \<^verbatim>\<open>kernelOffset *uint64\<close> is an option.\<close>

record mapping =
  start :: uint64
  limit :: uint64
  offset :: uint64
  kernelOffset :: "uint64 option"

subsection \<open>Errors\<close>

text \<open>
  Go \<^verbatim>\<open>error\<close> values. \<open>Errorf fmt args w\<close> is \<^verbatim>\<open>fmt.Errorf(fmt, args...)\<close>, where \<open>w\<close> is the
  error bound to the \<^verbatim>\<open>%w\<close> verb when the format has one; \<open>New s\<close> is \<^verbatim>\<open>errors.New(s)\<close>;
  \<open>Join es\<close> is the value \<^verbatim>\<open>errors.Join\<close> builds from its non-nil arguments;
  \<open>ErrNoSymbols\<close> is the sentinel \<^verbatim>\<open>elf.ErrNoSymbols\<close>;
  \<open>Extern s\<close> is an error made by a collaborator outside this package.
  A nil error is \<open>None\<close> of \<open>error option\<close>.
\<close>

datatype fmt_arg = Str string | Hex uint64 | MappingV mapping

datatype error =
    Extern string
  | ErrNoSymbols
  | New string
  | Errorf string "fmt_arg list" "error option"
  | Join "error list"

text \<open>\<^verbatim>\<open>errors.Join(errs...)\<close>: nil when every argument is nil, else the non-nil ones joined.\<close>

definition errors_Join :: "error option list \<Rightarrow> error option" where
  "errors_Join errs =
     (let es = List.map_filter (\<lambda>e. e) errs
      in if es = [] then None else Some (Join es))"

text \<open>
  \<^verbatim>\<open>errors.Is(err, target)\<close>: the error itself, or any error reached by unwrapping
  (\<^verbatim>\<open>%w\<close> of \<^verbatim>\<open>fmt.Errorf\<close>, every member of a joined error), equals the target.
\<close>

fun errors_Is :: "error \<Rightarrow> error \<Rightarrow> bool" where
  "errors_Is (Errorf f as w) target =
     (Errorf f as w = target \<or> (case w of None \<Rightarrow> False | Some e \<Rightarrow> errors_Is e target))"
| "errors_Is (Join es) target = (Join es = target \<or> list_ex (\<lambda>e. errors_Is e target) es)"
| "errors_Is e target = (e = target)"

subsection \<open>The world outside the package\<close>

text \<open>
  Every call that leaves the package is recorded, in order, as an event. The trace of
  events so far is the state of the outside world: the result of a call on a file
  (decoding it, reading its symbols, seeking, closing) may depend on everything
  that happened before, so each such call reads the trace. The functions of
  \<^verbatim>\<open>internal/pprof/elfexec\<close> compute from their arguments alone.
\<close>

datatype event =
    EvNewFile "os_File option"
  | EvSeek "os_File option"
  | EvClose os_File
  | EvBuildID string elf_File
  | EvSymbols elf_File
  | EvFindTextProgHeader elf_File
  | EvProgramHeadersForMapping "ProgHeader list" uint64 uint64
  | EvHeaderForFileOffset "ProgHeader list" uint64
  | EvGetBase FileHeader "ProgHeader option" "uint64 option" uint64 uint64 uint64

type_synonym trace = "event list"

text \<open>
  The collaborators, taken as parameters: \<^verbatim>\<open>elfNewFile\<close> (the package variable) and
  \<^verbatim>\<open>(*os.File).Seek(0, io.SeekStart)\<close> (the error it returns), both on a file pointer that
  may be nil, \<^verbatim>\<open>(*os.File).Close\<close> (the error it returns; the package calls it on non-nil
  files only), \<^verbatim>\<open>buildid.BuildID\<close>, \<^verbatim>\<open>(*elf.File).Symbols\<close>, and the four functions of
  \<^verbatim>\<open>elfexec\<close>. A function returning \<^verbatim>\<open>(x, error)\<close> whose caller reads \<^verbatim>\<open>x\<close> only when the
  error is nil is a sum, \<open>Inl\<close> the error. \<^verbatim>\<open>Symbols\<close> returns a pair: \<^verbatim>\<open>open\<close> goes through the
  symbols also when the error is \<^verbatim>\<open>elf.ErrNoSymbols\<close>.
\<close>

record env =
  elfNewFile :: "trace \<Rightarrow> os_File option \<Rightarrow> error + elf_File"
  Seek :: "trace \<Rightarrow> os_File option \<Rightarrow> error option"
  FileClose :: "trace \<Rightarrow> os_File \<Rightarrow> error option"
  BuildID :: "trace \<Rightarrow> string \<Rightarrow> elf_File \<Rightarrow> error + string"
  Symbols :: "trace \<Rightarrow> elf_File \<Rightarrow> Symbol list \<times> error option"
  FindTextProgHeader :: "elf_File \<Rightarrow> ProgHeader option"
  ProgramHeadersForMapping :: "ProgHeader list \<Rightarrow> uint64 \<Rightarrow> uint64 \<Rightarrow> ProgHeader list"
  HeaderForFileOffset :: "ProgHeader list \<Rightarrow> uint64 \<Rightarrow> error + ProgHeader option"
  GetBase :: "FileHeader \<Rightarrow> ProgHeader option \<Rightarrow> uint64 option \<Rightarrow> uint64 \<Rightarrow> uint64 \<Rightarrow> uint64
                \<Rightarrow> error + uint64"

subsection \<open>The object handle\<close>

text \<open>
  \<^verbatim>\<open>type ObjectFile struct\<close>. \<open>baseOnce\<close> is the state of the \<^verbatim>\<open>sync.Once\<close>: whether its
  function has run. The field \<^verbatim>\<open>m *mapping\<close> is \<open>m_mapping\<close>, the field \<^verbatim>\<open>BuildID\<close> is
  \<open>BuildID_of\<close>; the size and the modification time of the debug-info file are integers.
\<close>

record ObjectFile =
  Pid :: int
  Path :: string
  BuildID_of :: string
  File :: "os_File option"
  DebuginfoFile :: "os_File option"
  DebuginfoFileSize :: int
  DebuginfoModTime :: int
  baseOnce :: bool
  base :: uint64
  baseErr :: "error option"
  isData :: bool
  m_mapping :: "mapping option"

section \<open>Operations\<close>

text \<open>
  A call either returns its results or panics. Nothing in the package recovers a
  panic, so a panic of a callee is a panic of the caller.
\<close>

datatype 'a outcome = Return 'a | Panic

text \<open>
  \<^verbatim>\<open>rewindFile(f, err)\<close> on a non-nil file: seek to the start; a seek failure is wrapped
  and returned alone when \<^verbatim>\<open>err\<close> is nil, joined behind \<^verbatim>\<open>err\<close> otherwise.
\<close>

definition rewindFile :: "env \<Rightarrow> os_File \<Rightarrow> error option \<Rightarrow> trace \<Rightarrow> error option \<times> trace" where
  "rewindFile E f err t =
     (case Seek E t (Some f) of
        Some sErr0 \<Rightarrow>
          (let sErr = Errorf ''failed to seek to the beginning of the file %s: %w''
                        [Str (Name f)] (Some sErr0)
           in if err = None then (Some sErr, t @ [EvSeek (Some f)])
              else (errors_Join [err, Some sErr], t @ [EvSeek (Some f)]))
      | None \<Rightarrow> (err, t @ [EvSeek (Some f)]))"

text \<open>
  \<^verbatim>\<open>rewindFile(f, err)\<close> on a nil file: the seek is attempted on the nil pointer; when
  it fails, building the message evaluates \<^verbatim>\<open>f.Name()\<close>, which dereferences the nil pointer
  and panics; when it does not fail, \<^verbatim>\<open>err\<close> is returned.
\<close>

definition rewindFile_nil :: "env \<Rightarrow> error option \<Rightarrow> trace \<Rightarrow> error option outcome \<times> trace" where
  "rewindFile_nil E err t =
     (case Seek E t None of
        Some sErr0 \<Rightarrow> (Panic, t @ [EvSeek None])
      | None \<Rightarrow> (Return err, t @ [EvSeek None]))"

text \<open>
  \<^verbatim>\<open>func (o *ObjectFile) Close() error\<close>, on a receiver that may be nil. Each of the two
  blocks closes its file when the receiver and the file are non-nil and joins the
  result to the error so far.
\<close>

definition Close :: "env \<Rightarrow> ObjectFile option \<Rightarrow> trace \<Rightarrow> error option \<times> trace" where
  "Close E ob t =
     (let (err1, t1) =
            (case ob of
               Some f \<Rightarrow>
                 (case File f of
                    Some fl \<Rightarrow> (errors_Join [None, FileClose E t fl], t @ [EvClose fl])
                  | None \<Rightarrow> (None, t))
             | None \<Rightarrow> (None, t));
          (err2, t2) =
            (case ob of
               Some f \<Rightarrow>
                 (case DebuginfoFile f of
                    Some dl \<Rightarrow> (errors_Join [err1, FileClose E t1 dl], t1 @ [EvClose dl])
                  | None \<Rightarrow> (err1, t1))
             | None \<Rightarrow> (err1, t1))
      in (err2, t2))"

text \<open>
  \<^verbatim>\<open>strings.HasPrefix\<close> and \<^verbatim>\<open>strings.Contains\<close> on byte strings.
\<close>

definition strings_HasPrefix :: "string \<Rightarrow> string \<Rightarrow> bool" where
  "strings_HasPrefix s p = (take (length p) s = p)"

fun strings_Contains :: "string \<Rightarrow> string \<Rightarrow> bool" where
  "strings_Contains [] sub = (sub = [])"
| "strings_Contains (c # cs) sub =
     (strings_HasPrefix (c # cs) sub \<or> strings_Contains cs sub)"

text \<open>The closure \<^verbatim>\<open>pageAligned\<close> of \<^verbatim>\<open>open\<close>: \<^verbatim>\<open>addr%4096 == 0\<close>.\<close>

definition pageAligned :: "uint64 \<Rightarrow> bool" where
  "pageAligned addr = (addr mod 4096 = 0)"

text \<open>
  The loop of \<^verbatim>\<open>open\<close> over the symbols: the value of the first symbol whose name is the
  relocation symbol, nil when there is none.
\<close>

fun findSymbol :: "Symbol list \<Rightarrow> string \<Rightarrow> uint64 option" where
  "findSymbol [] relocationSymbol = None"
| "findSymbol (s # symbols) relocationSymbol =
     (if SymName s = relocationSymbol then Some (Value s)
      else findSymbol symbols relocationSymbol)"

text \<open>
  \<^verbatim>\<open>func open(f *os.File, start, limit, offset uint64, relocationSymbol string)\<close>. The
  results are the pair \<^verbatim>\<open>(*ObjectFile, error)\<close> as Go returns it: once the file is decoded,
  the deferred \<^verbatim>\<open>rewindFile\<close> rewrites the error result only, on every return. The file
  is non-nil there, so the rewind does not panic.
  \<open>open_scan\<close> is the block guarded by \<^verbatim>\<open>strings.Contains(filePath, "vmlinux") || ...\<close>: it
  returns early with the error of \<^verbatim>\<open>Symbols\<close> (\<open>Inl\<close>), or yields \<^verbatim>\<open>kernelOffset\<close>.
\<close>

definition open_scan :: "env \<Rightarrow> elf_File \<Rightarrow> string \<Rightarrow> trace \<Rightarrow> (error + uint64 option) \<times> trace" where
  "open_scan E elfFile relocationSymbol t =
     (let (symbols, err) = Symbols E t elfFile;
          t1 = t @ [EvSymbols elfFile];
          kernelOffset' =
            findSymbol symbols (if relocationSymbol = [] then ''_stext'' else relocationSymbol)
      in case err of
           Some e \<Rightarrow> if \<not> errors_Is e ErrNoSymbols then (Inl e, t1) else (Inr kernelOffset', t1)
         | None \<Rightarrow> (Inr kernelOffset', t1))"

definition "open" ::
  "env \<Rightarrow> os_File option \<Rightarrow> uint64 \<Rightarrow> uint64 \<Rightarrow> uint64 \<Rightarrow> string \<Rightarrow> trace
     \<Rightarrow> (ObjectFile option \<times> error option) \<times> trace" where
  "open E f start' limit' offset' relocationSymbol t =
     (case f of
        None \<Rightarrow> ((None, Some (New ''nil file'')), t)
      | Some fl \<Rightarrow>
          (case elfNewFile E t (Some fl) of
             Inl err \<Rightarrow> ((None, Some err), t @ [EvNewFile (Some fl)])
           | Inr elfFile \<Rightarrow>
               (let t1 = t @ [EvNewFile (Some fl)];
                    filePath = Name fl;
                    buildID = (case BuildID E t1 filePath elfFile of
                                 Inr bid \<Rightarrow> bid | Inl _ \<Rightarrow> []);
                    t2 = t1 @ [EvBuildID filePath elfFile];
                    (scan, t3) =
                      (if strings_Contains filePath ''vmlinux'' \<or> \<not> pageAligned start'
                          \<or> \<not> pageAligned limit' \<or> \<not> pageAligned offset'
                       then open_scan E elfFile relocationSymbol t2
                       else (Inr None, t2));
                    ((obj, err), t4) =
                      (case scan of
                         Inl e \<Rightarrow> ((None, Some e), t3)
                       | Inr kernelOffset' \<Rightarrow>
                           (let ph = FindTextProgHeader E elfFile;
                                t' = t3 @ [EvFindTextProgHeader elfFile,
                                           EvGetBase (Header elfFile) ph kernelOffset'
                                             start' limit' offset']
                            in case GetBase E (Header elfFile) ph kernelOffset'
                                      start' limit' offset' of
                                 Inl e \<Rightarrow>
                                   ((None, Some (Errorf ''could not identify base for %s: %w''
                                                   [Str filePath] (Some e))), t')
                               | Inr _ \<Rightarrow>
                                   ((Some \<lparr>Pid = 0, Path = filePath, BuildID_of = buildID,
                                           File = Some fl, DebuginfoFile = None,
                                           DebuginfoFileSize = 0, DebuginfoModTime = 0,
                                           baseOnce = False, base = 0, baseErr = None,
                                           isData = False,
                                           m_mapping = Some \<lparr>start = start', limit = limit',
                                             offset = offset',
                                             kernelOffset = kernelOffset'\<rparr>\<rparr>,
                                     None), t')));
                    (err', t5) = rewindFile E fl err t4
                in ((obj, err'), t5))))"

text \<open>
  \<^verbatim>\<open>func (m *mapping) findProgramHeader(ef *elf.File, addr uint64)\<close>, called on a non-nil
  mapping. \<^verbatim>\<open>uint64(1)<<63\<close> is \<open>push_bit 63 1\<close>; \<^verbatim>\<open>m.limit-m.start\<close> and
  \<^verbatim>\<open>addr-m.start+m.offset\<close> wrap as \<^verbatim>\<open>uint64\<close> does.
\<close>

definition findProgramHeader ::
  "env \<Rightarrow> mapping \<Rightarrow> elf_File \<Rightarrow> uint64 \<Rightarrow> trace \<Rightarrow> (error + ProgHeader option) \<times> trace" where
  "findProgramHeader E mp ef addr t =
     (if kernelOffset mp \<noteq> None \<or> start mp \<ge> limit mp \<or> limit mp \<ge> push_bit 63 1
      then (Inr (FindTextProgHeader E ef), t @ [EvFindTextProgHeader ef])
      else
        (let phdrs = filter (\<lambda>p. Type p = PT_LOAD) (Progs ef)
         in if length phdrs = 0 then (Inr None, t)
            else
              (let headers = ProgramHeadersForMapping E phdrs (offset mp) (limit mp - start mp);
                   t1 = t @ [EvProgramHeadersForMapping phdrs (offset mp) (limit mp - start mp)]
               in case headers of
                    [] \<Rightarrow> (Inl (New ''no program header matches mapping info''), t1)
                  | [h] \<Rightarrow> (Inr (Some h), t1)
                  | _ \<Rightarrow>
                      (HeaderForFileOffset E headers (addr - start mp + offset mp),
                       t1 @ [EvHeaderForFileOffset headers (addr - start mp + offset mp)]))))"

text \<open>
  \<^verbatim>\<open>func (f *ObjectFile) computeBase(addr uint64) (err error)\<close>, on a receiver that may be
  nil; the second result is the receiver after the call. \<^verbatim>\<open>elfNewFile\<close> is called on
  \<^verbatim>\<open>f.File\<close> as it is, nil or not. The deferred \<^verbatim>\<open>rewindFile\<close> runs on every return after
  the file is decoded, also after \<^verbatim>\<open>f.base\<close> and \<^verbatim>\<open>f.isData\<close> are written; when \<^verbatim>\<open>f.File\<close> is
  nil and the seek on it fails, it panics, and so does \<^verbatim>\<open>computeBase\<close>.
\<close>

definition computeBase ::
  "env \<Rightarrow> ObjectFile option \<Rightarrow> uint64 \<Rightarrow> trace
     \<Rightarrow> (error option outcome \<times> ObjectFile option) \<times> trace" where
  "computeBase E fo addr t =
     (case fo of
        None \<Rightarrow> ((Return None, None), t)
      | Some f \<Rightarrow>
          (case m_mapping f of
             None \<Rightarrow> ((Return None, Some f), t)
           | Some mp \<Rightarrow>
               if addr < start mp \<or> addr \<ge> limit mp
               then ((Return (Some (Errorf
                        ''specified address %x is outside the mapping range [%x, %x] for ObjectFile %q''
                        [Hex addr, Hex (start mp), Hex (limit mp), Str (Path f)] None)),
                      Some f), t)
               else
                 (case elfNewFile E t (File f) of
                    Inl e \<Rightarrow> ((Return (Some e), Some f), t @ [EvNewFile (File f)])
                  | Inr ef \<Rightarrow>
                      (let ((err, f'), t2) =
                             (case findProgramHeader E mp ef addr (t @ [EvNewFile (File f)]) of
                                (Inl e, t1) \<Rightarrow>
                                  ((Some (Errorf
                                      ''failed to find program header for ObjectFile %q, ELF mapping %#v, address %x: %w''
                                      [Str (Path f), MappingV mp, Hex addr] (Some e)), f), t1)
                              | (Inr ph, t1) \<Rightarrow>
                                  (case GetBase E (Header ef) ph (kernelOffset mp)
                                          (start mp) (limit mp) (offset mp) of
                                     Inl e \<Rightarrow>
                                       ((Some e, f),
                                        t1 @ [EvGetBase (Header ef) ph (kernelOffset mp)
                                                (start mp) (limit mp) (offset mp)])
                                   | Inr b \<Rightarrow>
                                       ((None,
                                         f\<lparr>base := b,
                                           isData := (case ph of
                                                        None \<Rightarrow> False
                                                      | Some p \<Rightarrow> Flags p AND PF_X = 0)\<rparr>),
                                        t1 @ [EvGetBase (Header ef) ph (kernelOffset mp)
                                                (start mp) (limit mp) (offset mp)])));
                           (res, t3) =
                             (case File f of
                                Some fl \<Rightarrow>
                                  (case rewindFile E fl err t2 of (err', t') \<Rightarrow> (Return err', t'))
                              | None \<Rightarrow> rewindFile_nil E err t2)
                       in ((res, Some f'), t3)))))"

text \<open>
  \<^verbatim>\<open>func (f *ObjectFile) ObjAddr(addr uint64) (uint64, error)\<close> on a non-nil handle.
  \<^verbatim>\<open>f.baseOnce.Do\<close> runs its function when the once has not run yet, and then marks it
  as run, also when the function panics; the function stores the error of
  \<^verbatim>\<open>computeBase\<close> in \<^verbatim>\<open>f.baseErr\<close>, which a panic of \<^verbatim>\<open>computeBase\<close> leaves as it was. A
  panic inside the once is a panic of \<^verbatim>\<open>ObjAddr\<close>. Otherwise the result is the sum of
  \<^verbatim>\<open>(0, f.baseErr)\<close> and \<^verbatim>\<open>(addr - f.base, nil)\<close>. With the outcome come the handle and the
  trace after the call.
\<close>

definition ObjAddr ::
  "env \<Rightarrow> ObjectFile \<Rightarrow> uint64 \<Rightarrow> trace \<Rightarrow> (error + uint64) outcome \<times> ObjectFile \<times> trace" where
  "ObjAddr E f addr t =
     (let (panicked, f1, t1) =
            (if baseOnce f then (False, f, t)
             else (case computeBase E (Some f) addr t of
                     ((Return err, fo), t') \<Rightarrow>
                       (False,
                        (case fo of Some f' \<Rightarrow> f' | None \<Rightarrow> f)\<lparr>baseErr := err, baseOnce := True\<rparr>,
                        t')
                   | ((Panic, fo), t') \<Rightarrow>
                       (True, (case fo of Some f' \<Rightarrow> f' | None \<Rightarrow> f)\<lparr>baseOnce := True\<rparr>, t')))
      in if panicked then (Panic, f1, t1)
         else case baseErr f1 of
                Some e \<Rightarrow> (Return (Inl e), f1, t1)
              | None \<Rightarrow> (Return (Inr (addr - base f1)), f1, t1))"

section \<open>Clients and sample inputs\<close>

text \<open>
  A client making one \<^verbatim>\<open>ObjAddr\<close> call after the other on the same handle, going on
  after a call that panics: the outcomes in order, the handle and the trace after the
  last call.
\<close>

fun ObjAddr_calls ::
  "env \<Rightarrow> ObjectFile \<Rightarrow> uint64 list \<Rightarrow> trace
     \<Rightarrow> (error + uint64) outcome list \<times> ObjectFile \<times> trace" where
  "ObjAddr_calls E f [] t = ([], f, t)"
| "ObjAddr_calls E f (a # as) t =
     (case ObjAddr E f a t of
        (r, f', t') \<Rightarrow>
          (case ObjAddr_calls E f' as t' of (rs, f'', t'') \<Rightarrow> (r # rs, f'', t'')))"

text \<open>The events a call added to the trace \<open>t\<close> it started from.\<close>

definition added :: "trace \<Rightarrow> trace \<Rightarrow> trace" where
  "added t t' = drop (length t) t'"

text \<open>
  A sample executable for concrete evaluations: a text segment (readable, executable)
  at file offset 0 and a data segment (readable, writable) at file offset 0x1000, one
  page each.
\<close>

definition text_seg :: ProgHeader where
  "text_seg = \<lparr>Type = 1, Flags = 5, Off = 0, Vaddr = 0x400000, Paddr = 0x400000,
                Filesz = 0x1000, Memsz = 0x1000, Align = 0x1000\<rparr>"

definition data_seg :: ProgHeader where
  "data_seg = \<lparr>Type = 1, Flags = 6, Off = 0x1000, Vaddr = 0x601000, Paddr = 0x601000,
                Filesz = 0x1000, Memsz = 0x1000, Align = 0x1000\<rparr>"

definition sample_elf :: elf_File where
  "sample_elf = \<lparr>Header = \<lparr>Class = 2, Data = 1, Version = 1, OSABI = 0, ABIVersion = 0,
                             LittleEndian = True, ElfType = 3, Machine = 62,
                             Entry = 0x400100\<rparr>,
                  Progs = [text_seg, data_seg], ident = 0\<rparr>"

definition sample_file :: os_File where
  "sample_file = \<lparr>Name = ''/usr/bin/app'', fd = 3\<rparr>"

definition debug_file :: os_File where
  "debug_file = \<lparr>Name = ''/usr/lib/debug/app.debug'', fd = 4\<rparr>"

definition vmlinux_file :: os_File where
  "vmlinux_file = \<lparr>Name = ''/boot/vmlinux'', fd = 5\<rparr>"

text \<open>
  Modelled from the spec: \<^verbatim>\<open>elfexec.ProgramHeadersForMapping\<close> and
  \<^verbatim>\<open>elfexec.HeaderForFileOffset\<close> are not among the sources. The first keeps the
  segments whose file-offset range overlaps the window of the mapping, the second
  selects the segment whose file-offset range contains the offset and fails when there
  is none or more than one. The file-offset range of a segment is taken from its file
  offset over its file size.
\<close>

definition spec_ProgramHeadersForMapping ::
  "ProgHeader list \<Rightarrow> uint64 \<Rightarrow> uint64 \<Rightarrow> ProgHeader list" where
  "spec_ProgramHeadersForMapping phdrs mapOff mapSz =
     filter (\<lambda>p. unat (Off p) < unat mapOff + unat mapSz
                 \<and> unat mapOff < unat (Off p) + unat (Filesz p)) phdrs"

definition spec_HeaderForFileOffset ::
  "ProgHeader list \<Rightarrow> uint64 \<Rightarrow> error + ProgHeader option" where
  "spec_HeaderForFileOffset headers fileOffset =
     (case filter (\<lambda>h. unat (Off h) \<le> unat fileOffset
                        \<and> unat fileOffset < unat (Off h) + unat (Filesz h)) headers of
        [] \<Rightarrow> Inl (Extern ''no program header matches file offset'')
      | [h] \<Rightarrow> Inr (Some h)
      | _ \<Rightarrow> Inl (Extern ''found second program header that matches file offset''))"

text \<open>
  A sample world: every file decodes to the sample executable, which has no symbol
  table and no build identifier; seeking succeeds; closing a file succeeds once and
  fails on a file closed before. The text-segment lookup stands in as the first
  loadable executable segment, the base computation as the load bias of the selected
  segment (0 without a segment).
\<close>

definition sample_env :: env where
  "sample_env =
     \<lparr>elfNewFile = (\<lambda>t f. Inr sample_elf),
      Seek = (\<lambda>t f. None),
      FileClose = (\<lambda>t f. if EvClose f \<in> set t then Some (Extern ''file already closed'')
                           else None),
      BuildID = (\<lambda>t p ef. Inl (Extern ''no build id'')),
      Symbols = (\<lambda>t ef. ([], Some ErrNoSymbols)),
      FindTextProgHeader =
        (\<lambda>ef. List.find (\<lambda>p. Type p = PT_LOAD \<and> Flags p AND PF_X \<noteq> 0) (Progs ef)),
      ProgramHeadersForMapping = spec_ProgramHeadersForMapping,
      HeaderForFileOffset = spec_HeaderForFileOffset,
      GetBase = (\<lambda>fh ph ko s l off.
                   case ph of None \<Rightarrow> Inr 0 | Some p \<Rightarrow> Inr (s - off + Off p - Vaddr p))\<rparr>"

text \<open>A user-space mapping of two pages at 0x500000, and a kernel mapping.\<close>

definition user_mapping :: mapping where
  "user_mapping = \<lparr>start = 0x500000, limit = 0x502000, offset = 0, kernelOffset = None\<rparr>"

definition kernel_mapping :: mapping where
  "kernel_mapping = \<lparr>start = 0xffffffff81000000, limit = 0xffffffff82000000,
                      offset = 0x200000, kernelOffset = Some 0xffffffff81001000\<rparr>"

text \<open>The handle \<^verbatim>\<open>open\<close> builds for the sample file under the user-space mapping.\<close>

definition sample_handle :: ObjectFile where
  "sample_handle =
     \<lparr>Pid = 0, Path = ''/usr/bin/app'', BuildID_of = [], File = Some sample_file,
      DebuginfoFile = None, DebuginfoFileSize = 0, DebuginfoModTime = 0,
      baseOnce = False, base = 0, baseErr = None, isData = False,
      m_mapping = Some user_mapping\<rparr>"

text \<open>A world in which every close fails.\<close>

definition failing_close_env :: env where
  "failing_close_env =
     sample_env\<lparr>FileClose := (\<lambda>t f. Some (Extern (''close '' @ Name f)))\<rparr>"

text \<open>
  A world whose files carry a symbol table with the kernel relocation symbols, and one
  whose symbol table cannot be read.
\<close>

definition kernel_symbols :: "Symbol list" where
  "kernel_symbols =
     [\<lparr>SymName = ''_text'', Info = 0, Other = 0, Section = 1,
       Value = 0xffffffff81000000, Size = 0\<rparr>,
      \<lparr>SymName = ''_stext'', Info = 0, Other = 0, Section = 1,
       Value = 0xffffffff81001000, Size = 0\<rparr>]"

definition kernel_env :: env where
  "kernel_env = sample_env\<lparr>Symbols := (\<lambda>t ef. (kernel_symbols, None))\<rparr>"

definition broken_symtab_env :: env where
  "broken_symtab_env =
     sample_env\<lparr>Symbols := (\<lambda>t ef. ([], Some (Extern ''cannot load symbol section'')))\<rparr>"

text \<open>A world in which no base can be computed.\<close>

definition no_base_env :: env where
  "no_base_env =
     sample_env\<lparr>GetBase := (\<lambda>fh ph ko s l off. Inl (Extern ''cannot compute base''))\<rparr>"

section \<open>Evaluating the samples\<close>

lemmas sample_defs =
  sample_env_def sample_elf_def sample_file_def sample_handle_def text_seg_def data_seg_def
  user_mapping_def kernel_mapping_def spec_ProgramHeadersForMapping_def
  spec_HeaderForFileOffset_def PT_LOAD_def PF_X_def

section \<open>Errors and traces\<close>

lemma errors_Is_refl: "errors_Is e e"
  by (cases e) simp_all

lemma added_append: "added t (t @ xs) = xs"
  by (simp add: added_def)

lemma rewindFile_trace: "snd (rewindFile E f err t) = t @ [EvSeek (Some f)]"
  by (simp add: rewindFile_def Let_def split: option.splits)

lemma rewindFile_Some:
  "\<exists>e'. fst (rewindFile E f (Some e) t) = Some e' \<and> errors_Is e' e"
  by (simp add: rewindFile_def Let_def errors_Join_def List.map_filter_def errors_Is_refl
      split: option.splits)

section \<open>Closing a handle\<close>

lemma Close_trace:
  "snd (Close E (Some f) t) =
     t @ map EvClose (List.map_filter (\<lambda>x. x) [File f, DebuginfoFile f])"
  by (simp add: Close_def List.map_filter_def split: option.splits)

lemma Close_both_fail:
  "File f = Some fl \<Longrightarrow> DebuginfoFile f = Some dl \<Longrightarrow> FileClose E t fl = Some e1 \<Longrightarrow>
   FileClose E (t @ [EvClose fl]) dl = Some e2 \<Longrightarrow>
   fst (Close E (Some f) t) = Some (Join [Join [e1], e2])"
  by (simp add: Close_def errors_Join_def List.map_filter_def)

lemma Close_no_files:
  "File f = None \<Longrightarrow> DebuginfoFile f = None \<Longrightarrow> Close E (Some f) t = (None, t)"
  by (simp add: Close_def)

lemma Close_nil_iff:
  "File f = Some fl \<Longrightarrow> DebuginfoFile f = Some dl \<Longrightarrow>
   (fst (Close E (Some f) t) = None) =
     (FileClose E t fl = None \<and> FileClose E (t @ [EvClose fl]) dl = None)"
  by (auto simp: Close_def errors_Join_def List.map_filter_def split: option.splits)

text \<open>
  C7: \<^verbatim>\<open>Close\<close> on a handle attempts to close the primary file and then the debug-info
  file, each when it is present and whatever the other attempt returned: the trace
  gains exactly these close events, a failure of the first does not stop the second.
  When both closes fail, the returned error holds both failures (\<^verbatim>\<open>errors.Is\<close> finds each
  of them in it); with both files present the result is nil only when both closes
  succeed. On a handle with neither file nothing is closed and the result is nil.
\<close>

theorem Close_attempts_both:
  "snd (Close E (Some f) t) =
     t @ map EvClose (List.map_filter (\<lambda>x. x) [File f, DebuginfoFile f]) \<and>
   (File f = Some fl \<and> DebuginfoFile f = Some dl \<and> FileClose E t fl = Some e1 \<and>
    FileClose E (t @ [EvClose fl]) dl = Some e2 \<longrightarrow>
      (\<exists>e. fst (Close E (Some f) t) = Some e \<and> errors_Is e e1 \<and> errors_Is e e2)) \<and>
   (File f = Some fl \<and> DebuginfoFile f = Some dl \<longrightarrow>
      (fst (Close E (Some f) t) = None) =
        (FileClose E t fl = None \<and> FileClose E (t @ [EvClose fl]) dl = None)) \<and>
   (File f = None \<and> DebuginfoFile f = None \<longrightarrow> Close E (Some f) t = (None, t))"
proof (intro conjI impI)
  show "snd (Close E (Some f) t) =
     t @ map EvClose (List.map_filter (\<lambda>x. x) [File f, DebuginfoFile f])"
    by (rule Close_trace)
next
  assume h: "File f = Some fl \<and> DebuginfoFile f = Some dl \<and> FileClose E t fl = Some e1 \<and>
    FileClose E (t @ [EvClose fl]) dl = Some e2"
  then have "fst (Close E (Some f) t) = Some (Join [Join [e1], e2])"
    by (simp add: Close_both_fail)
  moreover have "errors_Is (Join [Join [e1], e2]) e1" "errors_Is (Join [Join [e1], e2]) e2"
    by (simp_all add: errors_Is_refl)
  ultimately show "\<exists>e. fst (Close E (Some f) t) = Some e \<and> errors_Is e e1 \<and> errors_Is e e2"
    by blast
next
  assume "File f = Some fl \<and> DebuginfoFile f = Some dl"
  then show "(fst (Close E (Some f) t) = None) =
        (FileClose E t fl = None \<and> FileClose E (t @ [EvClose fl]) dl = None)"
    by (simp add: Close_nil_iff)
next
  assume "File f = None \<and> DebuginfoFile f = None"
  then show "Close E (Some f) t = (None, t)"
    by (simp add: Close_no_files)
qed

theorem Close_attempts_both_witness:
  "snd (Close failing_close_env (Some (sample_handle\<lparr>DebuginfoFile := Some debug_file\<rparr>)) []) =
     [EvClose sample_file, EvClose debug_file] \<and>
   (\<exists>e. fst (Close failing_close_env (Some (sample_handle\<lparr>DebuginfoFile := Some debug_file\<rparr>)) [])
          = Some e \<and>
        errors_Is e (Extern ''close /usr/bin/app'') \<and>
        errors_Is e (Extern ''close /usr/lib/debug/app.debug'')) \<and>
   Close failing_close_env (Some (sample_handle\<lparr>File := None\<rparr>)) [] = (None, [])"
  using Close_attempts_both [of failing_close_env "sample_handle\<lparr>DebuginfoFile := Some debug_file\<rparr>"
      "[]" sample_file debug_file "Extern ''close /usr/bin/app''"
      "Extern ''close /usr/lib/debug/app.debug''"]
    Close_attempts_both [of failing_close_env "sample_handle\<lparr>File := None\<rparr>" "[]"]
  by (simp add: sample_handle_def failing_close_env_def sample_env_def sample_file_def
      debug_file_def List.map_filter_def)

text \<open>
  C10: \<^verbatim>\<open>Close\<close> on a nil \<^verbatim>\<open>*ObjectFile\<close> closes nothing (the trace is unchanged) and returns
  a nil error.
\<close>

theorem Close_nil_handle: "Close E None t = (None, t)"
  by (simp add: Close_def)

section \<open>Address translation\<close>

lemma ObjAddr_done:
  "baseOnce f \<Longrightarrow>
   ObjAddr E f a t =
     (Return (case baseErr f of Some e \<Rightarrow> Inl e | None \<Rightarrow> Inr (a - base f)), f, t)"
  by (simp add: ObjAddr_def split: option.splits)

lemma computeBase_nil_file:
  "m_mapping f = Some mp \<Longrightarrow> start mp \<le> a \<Longrightarrow> a < limit mp \<Longrightarrow> File f = None \<Longrightarrow>
   elfNewFile E t None = Inl e \<Longrightarrow>
   computeBase E (Some f) a t = ((Return (Some e), Some f), t @ [EvNewFile None])"
  by (auto simp: computeBase_def)

lemma ObjAddr_marks_done: "ObjAddr E f a t = (oc, f1, t1) \<Longrightarrow> baseOnce f1"
  by (auto simp: ObjAddr_def Let_def
      split: if_splits prod.splits option.splits outcome.splits)

lemma ObjAddr_result:
  "ObjAddr E f a t = (Return r, f1, t1) \<Longrightarrow>
   r = (case baseErr f1 of Some e \<Rightarrow> Inl e | None \<Rightarrow> Inr (a - base f1))"
  by (auto simp: ObjAddr_def Let_def
      split: if_splits prod.splits option.splits outcome.splits)

lemma ObjAddr_calls_done:
  "baseOnce f \<Longrightarrow>
   ObjAddr_calls E f as t =
     (map (\<lambda>a. Return (case baseErr f of Some e \<Rightarrow> Inl e | None \<Rightarrow> Inr (a - base f))) as,
      f, t)"
  by (induction as) (simp_all add: ObjAddr_done)

lemma sample_first_call_fails:
  "fst (ObjAddr sample_env sample_handle 0x10 []) =
     Return (Inl (Errorf
       ''specified address %x is outside the mapping range [%x, %x] for ObjectFile %q''
       [Hex 0x10, Hex 0x500000, Hex 0x502000, Str ''/usr/bin/app''] None))"
  by code_simp

text \<open>
  C1: after the first \<^verbatim>\<open>ObjAddr\<close> call on a handle, however it ended, every later call
  returns from what the handle stores, for every address, in every world and after any
  further events, and leaves the handle and the trace as they are: nothing is
  decoded, selected or computed again. When the first call returned, what later calls
  return is its outcome: the cached error when it failed, the address minus the stored
  base (the first address minus the first result) when it succeeded; the same holds
  for any sequence of later calls.
\<close>

theorem ObjAddr_memoized:
  "ObjAddr E f a t = (oc, f1, t1) \<Longrightarrow>
     ObjAddr E' f1 a' t' =
       (Return (case baseErr f1 of Some e \<Rightarrow> Inl e | None \<Rightarrow> Inr (a' - base f1)), f1, t') \<and>
     (oc = Return r \<longrightarrow>
        ObjAddr E' f1 a' t' =
          (Return (case r of Inl e \<Rightarrow> Inl e | Inr v \<Rightarrow> Inr (a' - (a - v))), f1, t') \<and>
        ObjAddr_calls E' f1 as t' =
          (map (\<lambda>a'. Return (case r of Inl e \<Rightarrow> Inl e | Inr v \<Rightarrow> Inr (a' - (a - v)))) as,
           f1, t'))"
proof -
  assume first: "ObjAddr E f a t = (oc, f1, t1)"
  have dn: "baseOnce f1"
    using first by (rule ObjAddr_marks_done)
  have stored: "(case r of Inl e \<Rightarrow> Inl e | Inr v \<Rightarrow> Inr (x - (a - v))) =
      (case baseErr f1 of Some e \<Rightarrow> Inl e | None \<Rightarrow> Inr (x - base f1))"
    if "oc = Return r" for x
    using ObjAddr_result [of E f a t r f1 t1] first that by (simp split: option.splits)
  show ?thesis
    by (simp add: ObjAddr_done [OF dn] ObjAddr_calls_done [OF dn] stored)
qed

theorem ObjAddr_memoized_witness:
  "fst (ObjAddr_calls sample_env sample_handle [0x10, 0x500010, 0x501010] []) =
     [Return (Inl (Errorf
        ''specified address %x is outside the mapping range [%x, %x] for ObjectFile %q''
        [Hex 0x10, Hex 0x500000, Hex 0x502000, Str ''/usr/bin/app''] None)),
      Return (Inl (Errorf
        ''specified address %x is outside the mapping range [%x, %x] for ObjectFile %q''
        [Hex 0x10, Hex 0x500000, Hex 0x502000, Str ''/usr/bin/app''] None)),
      Return (Inl (Errorf
        ''specified address %x is outside the mapping range [%x, %x] for ObjectFile %q''
        [Hex 0x10, Hex 0x500000, Hex 0x502000, Str ''/usr/bin/app''] None))]"
proof -
  obtain oc f1 t1 where first: "ObjAddr sample_env sample_handle 0x10 [] = (oc, f1, t1)"
    by (cases "ObjAddr sample_env sample_handle 0x10 []") auto
  have oc: "oc = Return (Inl (Errorf
      ''specified address %x is outside the mapping range [%x, %x] for ObjectFile %q''
      [Hex 0x10, Hex 0x500000, Hex 0x502000, Str ''/usr/bin/app''] None))"
    using sample_first_call_fails first by simp
  from ObjAddr_memoized [OF first, where E' = sample_env and t' = t1
      and as = "[0x500010, 0x501010]"
      and r = "Inl (Errorf
        ''specified address %x is outside the mapping range [%x, %x] for ObjectFile %q''
        [Hex 0x10, Hex 0x500000, Hex 0x502000, Str ''/usr/bin/app''] None)"] oc
  have later: "ObjAddr_calls sample_env f1 [0x500010, 0x501010] t1 =
      ([Return (Inl (Errorf
          ''specified address %x is outside the mapping range [%x, %x] for ObjectFile %q''
          [Hex 0x10, Hex 0x500000, Hex 0x502000, Str ''/usr/bin/app''] None)),
        Return (Inl (Errorf
          ''specified address %x is outside the mapping range [%x, %x] for ObjectFile %q''
          [Hex 0x10, Hex 0x500000, Hex 0x502000, Str ''/usr/bin/app''] None))], f1, t1)"
    by (simp del: ObjAddr_calls.simps)
  show ?thesis
    using first oc later by (simp del: ObjAddr_calls.simps add: ObjAddr_calls.simps(2) [of _ _ "0x10"])
qed

text \<open>
  C4, as stated, fails: on a handle whose first call succeeded, a later call with an
  address at or above the limit of the mapping returns the address minus the stored
  base, not a bounds error.
\<close>

theorem ObjAddr_bounds_counterexample:
  "m_mapping sample_handle = Some user_mapping \<and> limit user_mapping \<le> 0x600000 \<and>
   fst (ObjAddr_calls sample_env sample_handle [0x500010, 0x600000] []) =
     [Return (Inr 0x400010), Return (Inr 0x500000)]"
  by code_simp

text \<open>
  C4, amended: on a handle with a mapping whose once has not run yet, \<^verbatim>\<open>ObjAddr\<close> with an
  address below the start or at or above the limit of the mapping fails with the bounds
  error, stores it in the handle and calls nothing outside the package. On a handle
  whose once has run, \<^verbatim>\<open>ObjAddr\<close> returns the stored outcome instead, whatever the
  address: the stored error, or the address minus the stored base.
\<close>

theorem ObjAddr_first_call_bounds:
  "\<not> baseOnce f \<Longrightarrow> m_mapping f = Some mp \<Longrightarrow> a < start mp \<or> limit mp \<le> a \<Longrightarrow>
   ObjAddr E f a t =
     (Return (Inl (Errorf
        ''specified address %x is outside the mapping range [%x, %x] for ObjectFile %q''
        [Hex a, Hex (start mp), Hex (limit mp), Str (Path f)] None)),
      f\<lparr>baseErr := Some (Errorf
             ''specified address %x is outside the mapping range [%x, %x] for ObjectFile %q''
             [Hex a, Hex (start mp), Hex (limit mp), Str (Path f)] None),
        baseOnce := True\<rparr>, t) \<and>
   (baseOnce g \<longrightarrow>
      ObjAddr E' g a' t' =
        (Return (case baseErr g of Some e \<Rightarrow> Inl e | None \<Rightarrow> Inr (a' - base g)), g, t'))"
proof (intro conjI impI)
  assume "\<not> baseOnce f" "m_mapping f = Some mp" "a < start mp \<or> limit mp \<le> a"
  then show "ObjAddr E f a t =
     (Return (Inl (Errorf
        ''specified address %x is outside the mapping range [%x, %x] for ObjectFile %q''
        [Hex a, Hex (start mp), Hex (limit mp), Str (Path f)] None)),
      f\<lparr>baseErr := Some (Errorf
             ''specified address %x is outside the mapping range [%x, %x] for ObjectFile %q''
             [Hex a, Hex (start mp), Hex (limit mp), Str (Path f)] None),
        baseOnce := True\<rparr>, t)"
    by (auto simp: ObjAddr_def computeBase_def)
next
  assume "baseOnce g"
  then show "ObjAddr E' g a' t' =
        (Return (case baseErr g of Some e \<Rightarrow> Inl e | None \<Rightarrow> Inr (a' - base g)), g, t')"
    by (rule ObjAddr_done)
qed

theorem ObjAddr_first_call_bounds_witness:
  "\<not> baseOnce sample_handle \<and> m_mapping sample_handle = Some user_mapping \<and>
   limit user_mapping \<le> 0x502000 \<and>
   fst (ObjAddr sample_env sample_handle 0x502000 []) =
     Return (Inl (Errorf
       ''specified address %x is outside the mapping range [%x, %x] for ObjectFile %q''
       [Hex 0x502000, Hex 0x500000, Hex 0x502000, Str ''/usr/bin/app''] None)) \<and>
   baseOnce (sample_handle\<lparr>baseOnce := True, base := 0x100000\<rparr>) \<and>
   fst (ObjAddr sample_env (sample_handle\<lparr>baseOnce := True, base := 0x100000\<rparr>) 0x600000 []) =
     Return (Inr 0x500000)"
proof -
  have h: "\<not> baseOnce sample_handle" "m_mapping sample_handle = Some user_mapping"
    "0x502000 < start user_mapping \<or> limit user_mapping \<le> 0x502000"
    by (simp_all add: sample_handle_def user_mapping_def)
  show ?thesis
    using ObjAddr_first_call_bounds [OF h, of sample_env "[]"
        "sample_handle\<lparr>baseOnce := True, base := 0x100000\<rparr>" sample_env "0x600000" "[]"] h
    by (simp add: sample_handle_def user_mapping_def)
qed

text \<open>
  C9: on a handle without a mapping whose once has not run yet and whose base is still
  the zero value, the first \<^verbatim>\<open>ObjAddr\<close> call checks no bounds and calls nothing outside
  the package; it records a nil error and returns the address unchanged, and so does
  every later call, for every address.
\<close>

theorem ObjAddr_nil_mapping:
  "\<not> baseOnce f \<Longrightarrow> base f = 0 \<Longrightarrow> m_mapping f = None \<Longrightarrow>
   ObjAddr E f a t = (Return (Inr a), f\<lparr>baseErr := None, baseOnce := True\<rparr>, t) \<and>
   ObjAddr E' (f\<lparr>baseErr := None, baseOnce := True\<rparr>) a' t' =
     (Return (Inr a'), f\<lparr>baseErr := None, baseOnce := True\<rparr>, t')"
  by (simp add: ObjAddr_def computeBase_def)

theorem ObjAddr_nil_mapping_witness:
  "\<not> baseOnce (sample_handle\<lparr>m_mapping := None\<rparr>) \<and>
   base (sample_handle\<lparr>m_mapping := None\<rparr>) = 0 \<and>
   m_mapping (sample_handle\<lparr>m_mapping := None\<rparr>) = None \<and>
   fst (ObjAddr sample_env (sample_handle\<lparr>m_mapping := None\<rparr>) 0x10 []) = Return (Inr 0x10) \<and>
   fst (ObjAddr sample_env (sample_handle\<lparr>m_mapping := None, baseErr := None, baseOnce := True\<rparr>)
          0xffffffffffffffff []) = Return (Inr 0xffffffffffffffff)"
proof -
  have h: "\<not> baseOnce (sample_handle\<lparr>m_mapping := None\<rparr>)"
    "base (sample_handle\<lparr>m_mapping := None\<rparr>) = 0"
    "m_mapping (sample_handle\<lparr>m_mapping := None\<rparr>) = None"
    by (simp_all add: sample_handle_def)
  show ?thesis
    using ObjAddr_nil_mapping [OF h, of sample_env "0x10" "[]" sample_env "0xffffffffffffffff" "[]"] h
    by simp
qed

section \<open>Selecting the program segment\<close>

lemma spec_HeaderForFileOffset_contains:
  assumes "spec_HeaderForFileOffset hs x = Inr (Some h)"
  shows "h \<in> set hs \<and> unat (Off h) \<le> unat x \<and> unat x < unat (Off h) + unat (Filesz h)"
proof -
  from assms have "filter (\<lambda>h. unat (Off h) \<le> unat x \<and> unat x < unat (Off h) + unat (Filesz h)) hs
      = [h]"
    by (auto simp: spec_HeaderForFileOffset_def split: list.splits)
  then have "h \<in> set (filter (\<lambda>h. unat (Off h) \<le> unat x
      \<and> unat x < unat (Off h) + unat (Filesz h)) hs)"
    by simp
  then show ?thesis
    by simp
qed

lemma sample_FindTextProgHeader: "FindTextProgHeader sample_env sample_elf = Some text_seg"
  by code_simp

text \<open>
  C2: for a mapping with no kernel offset, \<open>start < limit\<close> and \<open>limit < 2^63\<close>,
  \<^verbatim>\<open>findProgramHeader\<close> returns: no header and no error when the file has no \<^verbatim>\<open>PT_LOAD\<close>
  segment; an error when the overlap lookup over the loadable segments, with the window
  \<open>(offset, limit - start)\<close>, returns none; the one header when it returns exactly one;
  and otherwise whatever the file-offset lookup returns for the translated offset
  \<open>addr - start + offset\<close>, a header or its error.
\<close>

theorem findProgramHeader_user_space:
  "kernelOffset mp = None \<Longrightarrow> start mp < limit mp \<Longrightarrow> limit mp < 2 ^ 63 \<Longrightarrow>
   fst (findProgramHeader E mp ef addr t) =
     (let phdrs = filter (\<lambda>p. Type p = PT_LOAD) (Progs ef);
          headers = ProgramHeadersForMapping E phdrs (offset mp) (limit mp - start mp)
      in if phdrs = [] then Inr None
         else if headers = [] then Inl (New ''no program header matches mapping info'')
         else if length headers = 1 then Inr (Some (hd headers))
         else HeaderForFileOffset E headers (addr - start mp + offset mp))"
  by (auto simp: findProgramHeader_def Let_def split: list.splits)

theorem findProgramHeader_user_space_witness:
  "fst (findProgramHeader sample_env user_mapping sample_elf 0x501010 []) = Inr (Some data_seg) \<and>
   fst (findProgramHeader sample_env user_mapping sample_elf 0x500010 []) = Inr (Some text_seg) \<and>
   fst (findProgramHeader sample_env (user_mapping\<lparr>limit := 0x501000\<rparr>) sample_elf 0x500010 [])
     = Inr (Some text_seg) \<and>
   fst (findProgramHeader sample_env (user_mapping\<lparr>offset := 0x8000\<rparr>) sample_elf 0x500010 [])
     = Inl (New ''no program header matches mapping info'') \<and>
   fst (findProgramHeader sample_env user_mapping (sample_elf\<lparr>Progs := []\<rparr>) 0x500010 [])
     = Inr None"
proof -
  have u: "kernelOffset m' = None \<and> start m' < limit m' \<and> limit m' < 2 ^ 63"
    if "m' = user_mapping \<or> m' = user_mapping\<lparr>limit := 0x501000\<rparr>
        \<or> m' = user_mapping\<lparr>offset := 0x8000\<rparr>" for m'
    using that by (auto simp: user_mapping_def)
  have a: "fst (findProgramHeader sample_env user_mapping sample_elf 0x501010 [])
      = Inr (Some data_seg)"
    using findProgramHeader_user_space [of user_mapping sample_env sample_elf "0x501010" "[]"] u
    by (simp add: sample_defs)
  have b: "fst (findProgramHeader sample_env user_mapping sample_elf 0x500010 [])
      = Inr (Some text_seg)"
    using findProgramHeader_user_space [of user_mapping sample_env sample_elf "0x500010" "[]"] u
    by (simp add: sample_defs)
  have c: "fst (findProgramHeader sample_env (user_mapping\<lparr>limit := 0x501000\<rparr>) sample_elf
      0x500010 []) = Inr (Some text_seg)"
    using findProgramHeader_user_space [of "user_mapping\<lparr>limit := 0x501000\<rparr>" sample_env
        sample_elf "0x500010" "[]"] u
    by (simp add: sample_defs)
  have d: "fst (findProgramHeader sample_env (user_mapping\<lparr>offset := 0x8000\<rparr>) sample_elf
      0x500010 []) = Inl (New ''no program header matches mapping info'')"
    using findProgramHeader_user_space [of "user_mapping\<lparr>offset := 0x8000\<rparr>" sample_env
        sample_elf "0x500010" "[]"] u
    by (simp add: sample_defs)
  have e: "fst (findProgramHeader sample_env user_mapping (sample_elf\<lparr>Progs := []\<rparr>) 0x500010 [])
      = Inr None"
    using findProgramHeader_user_space [of user_mapping sample_env "sample_elf\<lparr>Progs := []\<rparr>"
        "0x500010" "[]"] u
    by (simp add: sample_defs)
  show ?thesis
    using a b c d e by simp
qed

text \<open>
  C3: \<^verbatim>\<open>findProgramHeader\<close> takes the kernel path (its only call outside is the text-segment
  lookup) exactly when the kernel offset is set, or \<open>start \<ge> limit\<close>, or \<open>limit \<ge> 2^63\<close>;
  on that path it returns the header of the text-segment lookup with no error,
  whatever the address.
\<close>

theorem findProgramHeader_kernel_style:
  "(snd (findProgramHeader E mp ef addr t) = t @ [EvFindTextProgHeader ef]) =
     (kernelOffset mp \<noteq> None \<or> limit mp \<le> start mp \<or> 2 ^ 63 \<le> limit mp) \<and>
   (kernelOffset mp \<noteq> None \<or> limit mp \<le> start mp \<or> 2 ^ 63 \<le> limit mp \<longrightarrow>
      fst (findProgramHeader E mp ef addr t) = Inr (FindTextProgHeader E ef) \<and>
      findProgramHeader E mp ef addr' t = findProgramHeader E mp ef addr t)"
  by (auto simp: findProgramHeader_def Let_def split: list.splits)

theorem findProgramHeader_kernel_style_witness:
  "findProgramHeader sample_env kernel_mapping sample_elf 0xffffffff81000010 [] =
     (Inr (Some text_seg), [EvFindTextProgHeader sample_elf]) \<and>
   snd (findProgramHeader sample_env user_mapping sample_elf 0x501010 []) \<noteq>
     [EvFindTextProgHeader sample_elf]"
proof -
  have k: "kernelOffset kernel_mapping \<noteq> None \<or> limit kernel_mapping \<le> start kernel_mapping
      \<or> 2 ^ 63 \<le> limit kernel_mapping"
    by (simp add: kernel_mapping_def)
  have u: "\<not> (kernelOffset user_mapping \<noteq> None \<or> limit user_mapping \<le> start user_mapping
      \<or> 2 ^ 63 \<le> limit user_mapping)"
    by (simp add: user_mapping_def)
  show ?thesis
    using findProgramHeader_kernel_style [of sample_env kernel_mapping sample_elf
        "0xffffffff81000010" "[]" "0xffffffff81000010"]
      findProgramHeader_kernel_style [of sample_env user_mapping sample_elf "0x501010" "[]"]
      k u sample_FindTextProgHeader
    by (metis append_Nil prod.collapse)
qed

section \<open>Opening a file\<close>

lemma findSymbol_None: "(findSymbol syms n = None) = (n \<notin> SymName ` set syms)"
  by (induction syms) auto

lemma open_scan_trace: "snd (open_scan E ef rs t) = t @ [EvSymbols ef]"
  by (simp add: open_scan_def Let_def split_beta split: option.splits)

lemma open_scan_result:
  "Symbols E t ef = (syms, err) \<Longrightarrow>
   fst (open_scan E ef rs t) =
     (case err of
        Some e \<Rightarrow>
          if errors_Is e ErrNoSymbols
          then Inr (findSymbol syms (if rs = [] then ''_stext'' else rs)) else Inl e
      | None \<Rightarrow> Inr (findSymbol syms (if rs = [] then ''_stext'' else rs)))"
  by (simp add: open_scan_def Let_def split: option.splits)

lemma open_decoded:
  "elfNewFile E t (Some fl) = Inr ef \<Longrightarrow>
   open E (Some fl) s l off rs t =
     (let t2 = t @ [EvNewFile (Some fl), EvBuildID (Name fl) ef];
          need = (strings_Contains (Name fl) ''vmlinux'' \<or> \<not> pageAligned s \<or> \<not> pageAligned l
                    \<or> \<not> pageAligned off);
          scan = (if need then fst (open_scan E ef rs t2) else Inr None);
          t3 = (if need then t2 @ [EvSymbols ef] else t2)
      in case scan of
           Inl e \<Rightarrow> ((None, fst (rewindFile E fl (Some e) t3)), t3 @ [EvSeek (Some fl)])
         | Inr ko \<Rightarrow>
             (let t4 = t3 @ [EvFindTextProgHeader ef,
                             EvGetBase (Header ef) (FindTextProgHeader E ef) ko s l off]
              in case GetBase E (Header ef) (FindTextProgHeader E ef) ko s l off of
                   Inl e \<Rightarrow>
                     ((None,
                       fst (rewindFile E fl
                              (Some (Errorf ''could not identify base for %s: %w''
                                       [Str (Name fl)] (Some e))) t4)),
                      t4 @ [EvSeek (Some fl)])
                 | Inr b \<Rightarrow>
                     ((Some \<lparr>Pid = 0, Path = Name fl,
                             BuildID_of =
                               (case BuildID E (t @ [EvNewFile (Some fl)]) (Name fl) ef of
                                  Inr bid \<Rightarrow> bid | Inl _ \<Rightarrow> []),
                             File = Some fl, DebuginfoFile = None,
                             DebuginfoFileSize = 0, DebuginfoModTime = 0,
                             baseOnce = False, base = 0, baseErr = None, isData = False,
                             m_mapping = Some \<lparr>start = s, limit = l, offset = off,
                                                kernelOffset = ko\<rparr>\<rparr>,
                       fst (rewindFile E fl None t4)),
                      t4 @ [EvSeek (Some fl)])))"
  by (simp add: open_def Let_def split_beta rewindFile_trace open_scan_trace split: sum.splits)

lemma open_decoded_cases:
  assumes dec: "elfNewFile E t (Some fl) = Inr ef"
    and res: "open E (Some fl) s l off rs t = ((ho, eo), t')"
  obtains
    (scan_failed) e where
      "strings_Contains (Name fl) ''vmlinux'' \<or> \<not> pageAligned s \<or> \<not> pageAligned l
         \<or> \<not> pageAligned off"
      "fst (open_scan E ef rs (t @ [EvNewFile (Some fl), EvBuildID (Name fl) ef])) = Inl e"
      "ho = None"
      "eo = fst (rewindFile E fl (Some e)
                   (t @ [EvNewFile (Some fl), EvBuildID (Name fl) ef, EvSymbols ef]))"
      "added t t' = [EvNewFile (Some fl), EvBuildID (Name fl) ef, EvSymbols ef, EvSeek (Some fl)]"
  | (check_failed) ko e pre where
      "strings_Contains (Name fl) ''vmlinux'' \<or> \<not> pageAligned s \<or> \<not> pageAligned l
         \<or> \<not> pageAligned off \<Longrightarrow>
       fst (open_scan E ef rs (t @ [EvNewFile (Some fl), EvBuildID (Name fl) ef])) = Inr ko \<and>
       pre = [EvNewFile (Some fl), EvBuildID (Name fl) ef, EvSymbols ef]"
      "\<not> (strings_Contains (Name fl) ''vmlinux'' \<or> \<not> pageAligned s \<or> \<not> pageAligned l
         \<or> \<not> pageAligned off) \<Longrightarrow>
       ko = None \<and> pre = [EvNewFile (Some fl), EvBuildID (Name fl) ef]"
      "GetBase E (Header ef) (FindTextProgHeader E ef) ko s l off = Inl e"
      "ho = None"
      "eo = fst (rewindFile E fl
                   (Some (Errorf ''could not identify base for %s: %w''
                            [Str (Name fl)] (Some e)))
                   (butlast t'))"
      "added t t' = pre @ [EvFindTextProgHeader ef,
                           EvGetBase (Header ef) (FindTextProgHeader E ef) ko s l off,
                           EvSeek (Some fl)]"
  | (check_passed) ko b pre where
      "strings_Contains (Name fl) ''vmlinux'' \<or> \<not> pageAligned s \<or> \<not> pageAligned l
         \<or> \<not> pageAligned off \<Longrightarrow>
       fst (open_scan E ef rs (t @ [EvNewFile (Some fl), EvBuildID (Name fl) ef])) = Inr ko \<and>
       pre = [EvNewFile (Some fl), EvBuildID (Name fl) ef, EvSymbols ef]"
      "\<not> (strings_Contains (Name fl) ''vmlinux'' \<or> \<not> pageAligned s \<or> \<not> pageAligned l
         \<or> \<not> pageAligned off) \<Longrightarrow>
       ko = None \<and> pre = [EvNewFile (Some fl), EvBuildID (Name fl) ef]"
      "GetBase E (Header ef) (FindTextProgHeader E ef) ko s l off = Inr b"
      "ho = Some \<lparr>Pid = 0, Path = Name fl,
                   BuildID_of = (case BuildID E (t @ [EvNewFile (Some fl)]) (Name fl) ef of
                                   Inr bid \<Rightarrow> bid | Inl _ \<Rightarrow> []),
                   File = Some fl, DebuginfoFile = None,
                   DebuginfoFileSize = 0, DebuginfoModTime = 0,
                   baseOnce = False, base = 0, baseErr = None, isData = False,
                   m_mapping = Some \<lparr>start = s, limit = l, offset = off,
                                      kernelOffset = ko\<rparr>\<rparr>"
      "eo = fst (rewindFile E fl None (butlast t'))"
      "added t t' = pre @ [EvFindTextProgHeader ef,
                           EvGetBase (Header ef) (FindTextProgHeader E ef) ko s l off,
                           EvSeek (Some fl)]"
proof -
  let ?t2 = "t @ [EvNewFile (Some fl), EvBuildID (Name fl) ef]"
  let ?need = "strings_Contains (Name fl) ''vmlinux'' \<or> \<not> pageAligned s \<or> \<not> pageAligned l
         \<or> \<not> pageAligned off"
  note eq = res [unfolded open_decoded [OF dec]]
  show thesis
  proof (cases ?need)
    case need: True
    show thesis
    proof (cases "fst (open_scan E ef rs ?t2)")
      case (Inl e)
      with need eq show thesis
        by (intro scan_failed [of e]) (auto simp: Let_def added_def)
    next
      case scan: (Inr ko)
      show thesis
      proof (cases "GetBase E (Header ef) (FindTextProgHeader E ef) ko s l off")
        case (Inl e)
        with need scan eq show thesis
          by (intro check_failed [of ko "[EvNewFile (Some fl), EvBuildID (Name fl) ef,
              EvSymbols ef]" e]) (auto simp: Let_def added_def butlast_append)
      next
        case (Inr b)
        with need scan eq show thesis
          by (intro check_passed [of ko "[EvNewFile (Some fl), EvBuildID (Name fl) ef,
              EvSymbols ef]" b]) (auto simp: Let_def added_def butlast_append)
      qed
    qed
  next
    case noneed: False
    show thesis
    proof (cases "GetBase E (Header ef) (FindTextProgHeader E ef) None s l off")
      case (Inl e)
      with noneed eq show thesis
        by (intro check_failed [of None "[EvNewFile (Some fl), EvBuildID (Name fl) ef]" e])
          (auto simp: Let_def added_def butlast_append)
    next
      case (Inr b)
      with noneed eq show thesis
        by (intro check_passed [of None "[EvNewFile (Some fl), EvBuildID (Name fl) ef]" b])
          (auto simp: Let_def added_def butlast_append)
    qed
  qed
qed

lemmas open_eval =
  open_def open_scan_def rewindFile_def pageAligned_def strings_HasPrefix_def Let_def added_def
  vmlinux_file_def kernel_env_def broken_symtab_env_def no_base_env_def

lemma open_pair:
  "open E f s l off rs t =
     ((fst (fst (open E f s l off rs t)), snd (fst (open E f s l off rs t))),
      snd (open E f s l off rs t))"
  by simp

text \<open>
  C5, as stated, fails: for an ordinary page-aligned user-space mapping no kernel offset
  is set, and the feasibility check still calls the base computation with the header
  of the text-segment lookup, not with no program header.
\<close>

theorem open_feasibility_counterexample:
  "open sample_env (Some sample_file) 0x500000 0x502000 0 [] [] =
     ((Some sample_handle, None),
      [EvNewFile (Some sample_file), EvBuildID ''/usr/bin/app'' sample_elf,
       EvFindTextProgHeader sample_elf,
       EvGetBase (Header sample_elf) (Some text_seg) None 0x500000 0x502000 0,
       EvSeek (Some sample_file)])"
  by (simp add: open_eval sample_defs)

text \<open>
  C5, amended: once the file is decoded, and unless the symbol scan ends \<^verbatim>\<open>open\<close> with its
  error, \<^verbatim>\<open>open\<close> calls the text-segment lookup and then the base computation, once, on
  the ELF header, the header that lookup returned (whether or not a kernel offset was
  found), the kernel offset (nil when the scan is skipped, else what the scan found)
  and the mapping bounds. When the base computation fails, \<^verbatim>\<open>open\<close> returns no handle
  and an error that wraps its error. When it succeeds, its value is dropped: \<^verbatim>\<open>open\<close>
  returns a handle whose once has not run, whose base and error are zero values and
  whose mapping holds the bounds and that kernel offset; the error result of \<^verbatim>\<open>open\<close>
  is then nil when the final rewind succeeds, the wrapped seek error otherwise. The
  equation gives the results and the whole trace of \<^verbatim>\<open>open\<close> in each case.
\<close>

theorem open_feasibility_check:
  assumes dec: "elfNewFile E t (Some fl) = Inr ef"
    and syms: "Symbols E (t @ [EvNewFile (Some fl), EvBuildID (Name fl) ef]) ef = (syms, err)"
  shows
    "open E (Some fl) s l off rs t =
       (let need = (strings_Contains (Name fl) ''vmlinux'' \<or> \<not> pageAligned s
                      \<or> \<not> pageAligned l \<or> \<not> pageAligned off);
            fatal = (need \<and> (case err of Some e \<Rightarrow> \<not> errors_Is e ErrNoSymbols | None \<Rightarrow> False));
            t3 = t @ [EvNewFile (Some fl), EvBuildID (Name fl) ef]
                   @ (if need then [EvSymbols ef] else []);
            ko = (if need then findSymbol syms (if rs = [] then ''_stext'' else rs) else None);
            ph = FindTextProgHeader E ef;
            t4 = t3 @ [EvFindTextProgHeader ef, EvGetBase (Header ef) ph ko s l off]
        in if fatal
           then ((None,
                  (case Seek E t3 (Some fl) of
                     None \<Rightarrow> err
                   | Some sErr \<Rightarrow>
                       errors_Join [err,
                         Some (Errorf ''failed to seek to the beginning of the file %s: %w''
                                 [Str (Name fl)] (Some sErr))])),
                 t3 @ [EvSeek (Some fl)])
           else
             (case GetBase E (Header ef) ph ko s l off of
                Inl e \<Rightarrow>
                  ((None,
                    (case Seek E t4 (Some fl) of
                       None \<Rightarrow>
                         Some (Errorf ''could not identify base for %s: %w''
                                 [Str (Name fl)] (Some e))
                     | Some sErr \<Rightarrow>
                         Some (Join
                           [Errorf ''could not identify base for %s: %w''
                              [Str (Name fl)] (Some e),
                            Errorf ''failed to seek to the beginning of the file %s: %w''
                              [Str (Name fl)] (Some sErr)]))),
                   t4 @ [EvSeek (Some fl)])
              | Inr b \<Rightarrow>
                  ((Some \<lparr>Pid = 0, Path = Name fl,
                          BuildID_of =
                            (case BuildID E (t @ [EvNewFile (Some fl)]) (Name fl) ef of
                               Inr bid \<Rightarrow> bid | Inl _ \<Rightarrow> []),
                          File = Some fl, DebuginfoFile = None,
                          DebuginfoFileSize = 0, DebuginfoModTime = 0,
                          baseOnce = False, base = 0, baseErr = None, isData = False,
                          m_mapping = Some \<lparr>start = s, limit = l, offset = off,
                                             kernelOffset = ko\<rparr>\<rparr>,
                    (case Seek E t4 (Some fl) of
                       None \<Rightarrow> None
                     | Some sErr \<Rightarrow>
                         Some (Errorf ''failed to seek to the beginning of the file %s: %w''
                                 [Str (Name fl)] (Some sErr)))),
                   t4 @ [EvSeek (Some fl)])))"
proof (cases "strings_Contains (Name fl) ''vmlinux'' \<or> \<not> pageAligned s
                      \<or> \<not> pageAligned l \<or> \<not> pageAligned off")
  case True
  then show ?thesis
    unfolding open_decoded [OF dec]
    by (simp add: Let_def open_scan_result [OF syms] rewindFile_def errors_Join_def
        List.map_filter_def split: option.splits sum.splits)
next
  case False
  then show ?thesis
    unfolding open_decoded [OF dec]
    by (simp add: Let_def rewindFile_def errors_Join_def List.map_filter_def
        split: option.splits sum.splits)
qed

theorem open_feasibility_check_witness:
  "open no_base_env (Some sample_file) 0x500000 0x502000 0 [] [] =
     ((None, Some (Errorf ''could not identify base for %s: %w'' [Str ''/usr/bin/app'']
                     (Some (Extern ''cannot compute base'')))),
      [EvNewFile (Some sample_file), EvBuildID ''/usr/bin/app'' sample_elf,
       EvFindTextProgHeader sample_elf,
       EvGetBase (Header sample_elf) (Some text_seg) None 0x500000 0x502000 0,
       EvSeek (Some sample_file)]) \<and>
   open kernel_env (Some vmlinux_file) 0xffffffff81000000 0xffffffff82000000 0x200000 [] [] =
     ((Some \<lparr>Pid = 0, Path = ''/boot/vmlinux'', BuildID_of = [], File = Some vmlinux_file,
             DebuginfoFile = None, DebuginfoFileSize = 0, DebuginfoModTime = 0,
             baseOnce = False, base = 0, baseErr = None, isData = False,
             m_mapping = Some \<lparr>start = 0xffffffff81000000, limit = 0xffffffff82000000,
                                offset = 0x200000,
                                kernelOffset = Some 0xffffffff81001000\<rparr>\<rparr>,
       None),
      [EvNewFile (Some vmlinux_file), EvBuildID ''/boot/vmlinux'' sample_elf,
       EvSymbols sample_elf, EvFindTextProgHeader sample_elf,
       EvGetBase (Header sample_elf) (Some text_seg) (Some 0xffffffff81001000)
         0xffffffff81000000 0xffffffff82000000 0x200000,
       EvSeek (Some vmlinux_file)]) \<and>
   fst (open sample_env (Some sample_file) 0x500000 0x502000 0 [] []) =
     (Some sample_handle, None)"
proof -
  have dec: "elfNewFile no_base_env [] (Some sample_file) = Inr sample_elf"
    "elfNewFile kernel_env [] (Some vmlinux_file) = Inr sample_elf"
    "elfNewFile sample_env [] (Some sample_file) = Inr sample_elf"
    by (simp_all add: sample_env_def no_base_env_def kernel_env_def)
  have syms: "Symbols no_base_env tr sample_elf = ([], Some ErrNoSymbols)"
    "Symbols kernel_env tr sample_elf = (kernel_symbols, None)"
    "Symbols sample_env tr sample_elf = ([], Some ErrNoSymbols)" for tr
    by (simp_all add: sample_env_def no_base_env_def kernel_env_def)
  have a: "open no_base_env (Some sample_file) 0x500000 0x502000 0 [] [] =
     ((None, Some (Errorf ''could not identify base for %s: %w'' [Str ''/usr/bin/app'']
                     (Some (Extern ''cannot compute base'')))),
      [EvNewFile (Some sample_file), EvBuildID ''/usr/bin/app'' sample_elf,
       EvFindTextProgHeader sample_elf,
       EvGetBase (Header sample_elf) (Some text_seg) None 0x500000 0x502000 0,
       EvSeek (Some sample_file)])"
    unfolding open_feasibility_check [OF dec(1) syms(1)]
    by (simp add: sample_defs no_base_env_def pageAligned_def strings_HasPrefix_def Let_def)
  have b: "open kernel_env (Some vmlinux_file)
      0xffffffff81000000 0xffffffff82000000 0x200000 [] [] =
     ((Some \<lparr>Pid = 0, Path = ''/boot/vmlinux'', BuildID_of = [], File = Some vmlinux_file,
             DebuginfoFile = None, DebuginfoFileSize = 0, DebuginfoModTime = 0,
             baseOnce = False, base = 0, baseErr = None, isData = False,
             m_mapping = Some \<lparr>start = 0xffffffff81000000, limit = 0xffffffff82000000,
                                offset = 0x200000,
                                kernelOffset = Some 0xffffffff81001000\<rparr>\<rparr>,
       None),
      [EvNewFile (Some vmlinux_file), EvBuildID ''/boot/vmlinux'' sample_elf,
       EvSymbols sample_elf, EvFindTextProgHeader sample_elf,
       EvGetBase (Header sample_elf) (Some text_seg) (Some 0xffffffff81001000)
         0xffffffff81000000 0xffffffff82000000 0x200000,
       EvSeek (Some vmlinux_file)])"
    unfolding open_feasibility_check [OF dec(2) syms(2)]
    by (simp add: sample_defs kernel_env_def kernel_symbols_def vmlinux_file_def
        pageAligned_def strings_HasPrefix_def Let_def)
  have c: "fst (open sample_env (Some sample_file) 0x500000 0x502000 0 [] []) =
     (Some sample_handle, None)"
    unfolding open_feasibility_check [OF dec(3) syms(3)]
    by (simp add: sample_defs pageAligned_def strings_HasPrefix_def Let_def)
  from a b c show ?thesis
    by simp
qed

text \<open>
  C6: once the file is decoded, \<^verbatim>\<open>open\<close> reads the symbols exactly when the file name
  contains \<^verbatim>\<open>vmlinux\<close> or one of start, limit, offset is not a multiple of 4096. When
  it does: an error of the read that is not \<^verbatim>\<open>elf.ErrNoSymbols\<close> ends \<^verbatim>\<open>open\<close> with no
  handle, that error and no base computation; otherwise (no error, or
  \<^verbatim>\<open>elf.ErrNoSymbols\<close>) \<^verbatim>\<open>open\<close> goes on to the feasibility check, the kernel offset being
  the value of the first returned symbol with the sought name, which is \<^verbatim>\<open>_stext\<close> when
  the candidate name is empty. When no returned symbol has that name, as when there is
  no symbol table and so no symbol, the kernel offset is nil in the check and in a
  handle \<^verbatim>\<open>open\<close> returns.
\<close>

theorem open_symbol_scan:
  assumes dec: "elfNewFile E t (Some fl) = Inr ef"
    and res: "open E (Some fl) s l off rs t = ((ho, eo), t')"
    and syms: "Symbols E (t @ [EvNewFile (Some fl), EvBuildID (Name fl) ef]) ef = (syms, err)"
  shows
    "(EvSymbols ef \<in> set (added t t')) =
       (strings_Contains (Name fl) ''vmlinux'' \<or> \<not> pageAligned s \<or> \<not> pageAligned l
          \<or> \<not> pageAligned off) \<and>
     (strings_Contains (Name fl) ''vmlinux'' \<or> \<not> pageAligned s \<or> \<not> pageAligned l
          \<or> \<not> pageAligned off \<longrightarrow>
        (case err of
           Some e \<Rightarrow>
             if \<not> errors_Is e ErrNoSymbols
             then ho = None \<and> (\<exists>e'. eo = Some e' \<and> errors_Is e' e) \<and>
                  added t t' = [EvNewFile (Some fl), EvBuildID (Name fl) ef, EvSymbols ef,
                                EvSeek (Some fl)]
             else added t t' = [EvNewFile (Some fl), EvBuildID (Name fl) ef, EvSymbols ef,
                                EvFindTextProgHeader ef,
                                EvGetBase (Header ef) (FindTextProgHeader E ef)
                                  (findSymbol syms (if rs = [] then ''_stext'' else rs)) s l off,
                                EvSeek (Some fl)]
         | None \<Rightarrow>
             added t t' = [EvNewFile (Some fl), EvBuildID (Name fl) ef, EvSymbols ef,
                           EvFindTextProgHeader ef,
                           EvGetBase (Header ef) (FindTextProgHeader E ef)
                             (findSymbol syms (if rs = [] then ''_stext'' else rs)) s l off,
                           EvSeek (Some fl)]) \<and>
        ((case err of Some e \<Rightarrow> errors_Is e ErrNoSymbols | None \<Rightarrow> True) \<and>
         (if rs = [] then ''_stext'' else rs) \<notin> SymName ` set syms \<longrightarrow>
           added t t' = [EvNewFile (Some fl), EvBuildID (Name fl) ef, EvSymbols ef,
                         EvFindTextProgHeader ef,
                         EvGetBase (Header ef) (FindTextProgHeader E ef) None s l off,
                         EvSeek (Some fl)] \<and>
           (\<forall>h. ho = Some h \<longrightarrow>
                m_mapping h = Some \<lparr>start = s, limit = l, offset = off,
                                     kernelOffset = None\<rparr>)))"
  using dec res
proof (cases rule: open_decoded_cases)
  case (scan_failed e0)
  have "\<exists>e'. eo = Some e' \<and> errors_Is e' e0"
    unfolding scan_failed(4) by (rule rewindFile_Some)
  with scan_failed show ?thesis
    by (auto simp: open_scan_result [OF syms] findSymbol_None split: option.splits if_splits)
next
  case (check_failed ko e0 pre)
  then show ?thesis
    by (cases "strings_Contains (Name fl) ''vmlinux'' \<or> \<not> pageAligned s \<or> \<not> pageAligned l
          \<or> \<not> pageAligned off")
      (auto simp: open_scan_result [OF syms] findSymbol_None split: option.splits if_splits)
next
  case (check_passed ko b pre)
  then show ?thesis
    by (cases "strings_Contains (Name fl) ''vmlinux'' \<or> \<not> pageAligned s \<or> \<not> pageAligned l
          \<or> \<not> pageAligned off")
      (auto simp: open_scan_result [OF syms] findSymbol_None split: option.splits if_splits)
qed

theorem open_symbol_scan_witness:
  "added [] (snd (open kernel_env (Some vmlinux_file)
                    0xffffffff81000000 0xffffffff82000000 0x200000 [] [])) =
     [EvNewFile (Some vmlinux_file), EvBuildID ''/boot/vmlinux'' sample_elf,
      EvSymbols sample_elf, EvFindTextProgHeader sample_elf,
      EvGetBase (Header sample_elf) (Some text_seg) (Some 0xffffffff81001000)
        0xffffffff81000000 0xffffffff82000000 0x200000,
      EvSeek (Some vmlinux_file)] \<and>
   fst (fst (open broken_symtab_env (Some vmlinux_file)
               0xffffffff81000000 0xffffffff82000000 0x200000 [] [])) = None \<and>
   (\<exists>e'. snd (fst (open broken_symtab_env (Some vmlinux_file)
                     0xffffffff81000000 0xffffffff82000000 0x200000 [] [])) = Some e' \<and>
         errors_Is e' (Extern ''cannot load symbol section'')) \<and>
   added [] (snd (open sample_env (Some vmlinux_file)
                    0xffffffff81000000 0xffffffff82000000 0x200000 [] [])) =
     [EvNewFile (Some vmlinux_file), EvBuildID ''/boot/vmlinux'' sample_elf,
      EvSymbols sample_elf, EvFindTextProgHeader sample_elf,
      EvGetBase (Header sample_elf) (Some text_seg) None
        0xffffffff81000000 0xffffffff82000000 0x200000,
      EvSeek (Some vmlinux_file)] \<and>
   EvSymbols sample_elf \<notin>
     set (added [] (snd (open sample_env (Some sample_file) 0x500000 0x502000 0 [] [])))"
proof -
  have dec: "elfNewFile kernel_env [] (Some vmlinux_file) = Inr sample_elf"
    "elfNewFile broken_symtab_env [] (Some vmlinux_file) = Inr sample_elf"
    "elfNewFile sample_env [] (Some vmlinux_file) = Inr sample_elf"
    "elfNewFile sample_env [] (Some sample_file) = Inr sample_elf"
    by (simp_all add: sample_env_def kernel_env_def broken_symtab_env_def)
  have need: "strings_Contains (Name vmlinux_file) ''vmlinux''"
    by (simp add: vmlinux_file_def strings_HasPrefix_def)
  have noneed: "\<not> (strings_Contains (Name sample_file) ''vmlinux'' \<or> \<not> pageAligned 0x500000
      \<or> \<not> pageAligned 0x502000 \<or> \<not> pageAligned 0)"
    by (simp add: sample_file_def strings_HasPrefix_def pageAligned_def)
  have syms: "Symbols kernel_env tr sample_elf = (kernel_symbols, None)"
    "Symbols broken_symtab_env tr sample_elf =
       ([], Some (Extern ''cannot load symbol section''))"
    "Symbols sample_env tr sample_elf = ([], Some ErrNoSymbols)" for tr
    by (simp_all add: sample_env_def kernel_env_def broken_symtab_env_def)
  have found: "findSymbol kernel_symbols ''_stext'' = Some 0xffffffff81001000"
    by (simp add: kernel_symbols_def)
  have tseg: "FindTextProgHeader kernel_env sample_elf = Some text_seg"
    "FindTextProgHeader sample_env sample_elf = Some text_seg"
    by (simp_all add: sample_defs kernel_env_def)
  have name: "Name vmlinux_file = ''/boot/vmlinux''"
    by (simp add: vmlinux_file_def)
  note k = open_symbol_scan [OF dec(1) open_pair syms(1), where rs = "[]"
      and s = "0xffffffff81000000" and l = "0xffffffff82000000" and off = "0x200000"]
  note b = open_symbol_scan [OF dec(2) open_pair syms(2), where rs = "[]"
      and s = "0xffffffff81000000" and l = "0xffffffff82000000" and off = "0x200000"]
  note n = open_symbol_scan [OF dec(3) open_pair syms(3), where rs = "[]"
      and s = "0xffffffff81000000" and l = "0xffffffff82000000" and off = "0x200000"]
  note u = open_symbol_scan [OF dec(4) open_pair syms(3), where rs = "[]"
      and s = "0x500000" and l = "0x502000" and off = 0, THEN conjunct1]
  from k need have "added [] (snd (open kernel_env (Some vmlinux_file)
                    0xffffffff81000000 0xffffffff82000000 0x200000 [] [])) =
     [EvNewFile (Some vmlinux_file), EvBuildID ''/boot/vmlinux'' sample_elf,
      EvSymbols sample_elf, EvFindTextProgHeader sample_elf,
      EvGetBase (Header sample_elf) (Some text_seg) (Some 0xffffffff81001000)
        0xffffffff81000000 0xffffffff82000000 0x200000,
      EvSeek (Some vmlinux_file)]"
    by (simp add: syms found tseg name strings_HasPrefix_def)
  moreover from b need have "fst (fst (open broken_symtab_env (Some vmlinux_file)
               0xffffffff81000000 0xffffffff82000000 0x200000 [] [])) = None \<and>
   (\<exists>e'. snd (fst (open broken_symtab_env (Some vmlinux_file)
                     0xffffffff81000000 0xffffffff82000000 0x200000 [] [])) = Some e' \<and>
         errors_Is e' (Extern ''cannot load symbol section''))"
    by (simp add: syms name strings_HasPrefix_def)
  moreover from n need have "added [] (snd (open sample_env (Some vmlinux_file)
                    0xffffffff81000000 0xffffffff82000000 0x200000 [] [])) =
     [EvNewFile (Some vmlinux_file), EvBuildID ''/boot/vmlinux'' sample_elf,
      EvSymbols sample_elf, EvFindTextProgHeader sample_elf,
      EvGetBase (Header sample_elf) (Some text_seg) None
        0xffffffff81000000 0xffffffff82000000 0x200000,
      EvSeek (Some vmlinux_file)]"
    by (simp add: syms tseg name strings_HasPrefix_def)
  moreover from u noneed have "EvSymbols sample_elf \<notin>
     set (added [] (snd (open sample_env (Some sample_file) 0x500000 0x502000 0 [] [])))"
    by simp
  ultimately show ?thesis
    by simp
qed

end
